theory Spec2Isabelle
  imports Main
begin

unbundle bit_operations_syntax

section \<open>Python strings\<close>

text \<open>
  A Python \<open>str\<close> is a sequence of Unicode code points; it is modelled as a list of
  natural numbers (one per code point), so that the Cyrillic literals of the client are
  single characters, as they are for Python's \<open>in\<close>, \<open>re\<close> and \<open>len\<close>.
\<close>

type_synonym ustring = "nat list"

definition ascii :: "string \<Rightarrow> ustring" where
  "ascii s = map of_char s"

text \<open>
  The character tables of the Python runtime (the Unicode character database) are not
  part of the repository. They are parameters of the model:
  \<^item> \<open>isspace\<close>: the characters that \<open>\s\<close> matches and \<open>str.strip()\<close> removes;
  \<^item> \<open>isdecimal\<close>: the characters that \<open>\d\<close> matches;
  \<^item> \<open>lower\<close>: \<open>str.lower()\<close>;
  \<^item> \<open>ci_eq c x\<close>: under \<open>re.I\<close>, the pattern literal \<open>c\<close> matches the character \<open>x\<close>.
\<close>

record unicode_db =
  isspace :: "nat \<Rightarrow> bool"
  isdecimal :: "nat \<Rightarrow> bool"
  lower :: "ustring \<Rightarrow> ustring"
  ci_eq :: "nat \<Rightarrow> nat \<Rightarrow> bool"

text \<open>\<open>s.startswith(p)\<close> and \<open>p in s\<close> on strings.\<close>

definition startswith :: "ustring \<Rightarrow> ustring \<Rightarrow> bool" where
  "startswith s p = (take (length p) s = p)"

fun py_in :: "ustring \<Rightarrow> ustring \<Rightarrow> bool" where
  "py_in p [] = (p = [])"
| "py_in p (c # s) = (startswith (c # s) p \<or> py_in p s)"

text \<open>\<open>s.strip()\<close> and \<open>sep.join(xs)\<close>.\<close>

definition strip :: "unicode_db \<Rightarrow> ustring \<Rightarrow> ustring" where
  "strip U s = rev (dropWhile (isspace U) (rev (dropWhile (isspace U) s)))"

fun join :: "ustring \<Rightarrow> ustring list \<Rightarrow> ustring" where
  "join sep [] = []"
| "join sep [x] = x"
| "join sep (x # y # ys) = x @ sep @ join sep (y # ys)"

text \<open>
  A lone surrogate (U+D800 to U+DFFF) is a code point that a Python string may hold but
  that no strict encoder (UTF-8 included) accepts.
\<close>

definition surrogate :: "nat \<Rightarrow> bool" where
  "surrogate c = (0xD800 \<le> c \<and> c \<le> 0xDFFF)"

text \<open>The string literals of \<open>_do_query\<close> and \<open>extract_captcha_image\<close>, by code point.\<close>

definition Greshka :: ustring where
  \<comment> \<open>"Error": U+0413 U+0440 U+0435 U+0448 U+043A U+0430\<close>
  "Greshka = [0x413, 0x440, 0x435, 0x448, 0x43A, 0x430]"

definition Nevalidna :: ustring where
  \<comment> \<open>"Invalid": U+041D U+0435 U+0432 U+0430 U+043B U+0438 U+0434 U+043D U+0430\<close>
  "Nevalidna = [0x41D, 0x435, 0x432, 0x430, 0x43B, 0x438, 0x434, 0x43D, 0x430]"

definition kapcha :: ustring where
  \<comment> \<open>"captcha": U+043A U+0430 U+043F U+0447 U+0430\<close>
  "kapcha = [0x43A, 0x430, 0x43F, 0x447, 0x430]"

definition Sled :: ustring where
  \<comment> \<open>"After": U+0421 U+043B U+0435 U+0434\<close>
  "Sled = [0x421, 0x43B, 0x435, 0x434]"

definition poluchen :: ustring where
  \<comment> \<open>"received": U+043F U+043E U+043B U+0443 U+0447 U+0435 U+043D\<close>
  "poluchen = [0x43F, 0x43E, 0x43B, 0x443, 0x447, 0x435, 0x43D]"

definition zashtiten_kod :: ustring where
  \<comment> \<open>"security code": U+0437 U+0430 U+0449 U+0438 U+0442 U+0435 U+043D, space,
      U+043A U+043E U+0434\<close>
  "zashtiten_kod = [0x437, 0x430, 0x449, 0x438, 0x442, 0x435, 0x43D, 0x20, 0x43A, 0x43E, 0x434]"

definition could_not_parse :: ustring where
  "could_not_parse = ascii ''Could not parse result''"


section \<open>Regular expressions\<close>

text \<open>
  The patterns of the client use literals, \<open>\s\<close>, \<open>\d\<close>, \<open>.\<close> (always under
  \<open>re.DOTALL\<close>), a greedy \<open>+\<close>, a lazy \<open>*?\<close>, and one alternation that spans the whole
  pattern. A pattern is a list of alternatives, each a list of items; \<open>\d{2}\<close> is written
  as two \<open>One Digit\<close> items.
\<close>

datatype atom = Literal nat | Digit | Space | AnyChar

datatype item = One atom | PlusGreedy atom | StarLazy atom

type_synonym pattern = "item list"

fun atom_ok :: "unicode_db \<Rightarrow> bool \<Rightarrow> atom \<Rightarrow> nat \<Rightarrow> bool" where
  "atom_ok U ic (Literal c) x = (if ic then ci_eq U c x else x = c)"
| "atom_ok U ic Digit x = isdecimal U x"
| "atom_ok U ic Space x = isspace U x"
| "atom_ok U ic AnyChar x = True"

text \<open>
  The backtracking matcher of \<open>re\<close>, anchored at the start of the subject: it returns the
  matched prefix. A greedy \<open>+\<close> prefers to take one more character and gives it back
  when the rest of the pattern fails; a lazy \<open>*?\<close> first tries the rest of the pattern and
  takes one more character when that fails.
\<close>

fun match_here :: "unicode_db \<Rightarrow> bool \<Rightarrow> pattern \<Rightarrow> ustring \<Rightarrow> ustring option" where
  "match_here U ic [] s = Some []"
| "match_here U ic (One a # r) [] = None"
| "match_here U ic (One a # r) (c # s) =
     (if atom_ok U ic a c then map_option (Cons c) (match_here U ic r s) else None)"
| "match_here U ic (PlusGreedy a # r) [] = None"
| "match_here U ic (PlusGreedy a # r) (c # s) =
     (if atom_ok U ic a c
      then (case match_here U ic (PlusGreedy a # r) s of
              Some m \<Rightarrow> Some (c # m)
            | None \<Rightarrow> map_option (Cons c) (match_here U ic r s))
      else None)"
| "match_here U ic (StarLazy a # r) [] = match_here U ic r []"
| "match_here U ic (StarLazy a # r) (c # s) =
     (case match_here U ic r (c # s) of
        Some m \<Rightarrow> Some m
      | None \<Rightarrow>
         (if atom_ok U ic a c
          then map_option (Cons c) (match_here U ic (StarLazy a # r) s)
          else None))"

text \<open>The alternatives of a pattern are tried in order at one position.\<close>

fun match_alts :: "unicode_db \<Rightarrow> bool \<Rightarrow> pattern list \<Rightarrow> ustring \<Rightarrow> ustring option" where
  "match_alts U ic [] s = None"
| "match_alts U ic (p # ps) s =
     (case match_here U ic p s of Some m \<Rightarrow> Some m | None \<Rightarrow> match_alts U ic ps s)"

text \<open>
  \<open>re.search(pattern, s, flags)\<close>: the leftmost position where the pattern matches;
  the result is the text of the match (\<open>m.group(1)\<close> in the client, whose group spans the
  whole pattern), or \<open>None\<close>.
\<close>

fun re_search :: "unicode_db \<Rightarrow> bool \<Rightarrow> pattern list \<Rightarrow> ustring \<Rightarrow> ustring option" where
  "re_search U ic ps [] = match_alts U ic ps []"
| "re_search U ic ps (c # s) =
     (case match_alts U ic ps (c # s) of Some m \<Rightarrow> Some m | None \<Rightarrow> re_search U ic ps s)"

definition lit :: "ustring \<Rightarrow> pattern" where
  "lit s = map (\<lambda>c. One (Literal c)) s"

text \<open>\<open>r'(Sled\s+\d{2}\.\d{2}\.\d{4}.*?poluchen\.)'\<close> with \<open>re.DOTALL\<close>.\<close>

definition success_pattern :: "pattern list" where
  "success_pattern =
     [lit Sled @ [PlusGreedy Space,
        One Digit, One Digit, One (Literal 0x2E),
        One Digit, One Digit, One (Literal 0x2E),
        One Digit, One Digit, One Digit, One Digit,
        StarLazy AnyChar] @ lit poluchen @ [One (Literal 0x2E)]]"

text \<open>\<open>r'(Greshka.*?kapcha|Nevalidna.*?kapcha)'\<close> with \<open>re.DOTALL | re.I\<close>.\<close>

definition error_pattern :: "pattern list" where
  "error_pattern =
     [lit Greshka @ [StarLazy AnyChar] @ lit kapcha,
      lit Nevalidna @ [StarLazy AnyChar] @ lit kapcha]"

text \<open>
  What a pattern denotes, independent of the search order: the words an alternative
  accepts, and the texts that contain such a word.
\<close>

fun accepts :: "unicode_db \<Rightarrow> bool \<Rightarrow> pattern \<Rightarrow> ustring \<Rightarrow> bool" where
  "accepts U ic [] w = (w = [])"
| "accepts U ic (One a # r) w =
     (case w of [] \<Rightarrow> False | c # w' \<Rightarrow> atom_ok U ic a c \<and> accepts U ic r w')"
| "accepts U ic (PlusGreedy a # r) w =
     (\<exists>u v. w = u @ v \<and> u \<noteq> [] \<and> list_all (atom_ok U ic a) u \<and> accepts U ic r v)"
| "accepts U ic (StarLazy a # r) w =
     (\<exists>u v. w = u @ v \<and> list_all (atom_ok U ic a) u \<and> accepts U ic r v)"

definition contains_match :: "unicode_db \<Rightarrow> bool \<Rightarrow> pattern list \<Rightarrow> ustring \<Rightarrow> bool" where
  "contains_match U ic ps s =
     (\<exists>pre w post p. s = pre @ w @ post \<and> p \<in> set ps \<and> accepts U ic p w)"


section \<open>The document tree of BeautifulSoup\<close>

text \<open>
  \<open>BeautifulSoup(html, 'lxml')\<close> builds a tree of tags and strings. The tree is modelled
  as BeautifulSoup holds it. A string has a class: \<open>NavigableString\<close> or one of its
  subclasses. A tag has a name, a dictionary of attributes, the field
  \<open>interesting_string_types\<close> and a list of children; the value of a multi-valued
  attribute (\<open>class\<close>) is a list of strings, any other value is one string.

  The field \<open>interesting_string_types\<close> is set by the tree builder when the tag is made:
  for most tags it is \<open>(NavigableString, CData)\<close>; for a tag that holds a special string
  (\<open>script\<close>, \<open>style\<close>, \<open>template\<close>, ...) it is the class of that string. It is the
  default of \<open>get_text\<close> for what counts as text of the tag.
\<close>

datatype string_type =
    NavigableString
  | CData
  | Comment
  | Declaration
  | Doctype
  | ProcessingInstruction
  | Stylesheet
  | Script
  | TemplateString
  | RubyTextString
  | RubyParenthesisString

datatype attr_value = Single ustring | Multi "ustring list"

datatype node =
    Str string_type ustring
  | Tag (tag_name: ustring) (attrs: "(ustring \<times> attr_value) list")
        (interesting_string_types: "string_type list") (contents: "node list")

definition DEFAULT_INTERESTING_STRING_TYPES :: "string_type list" where
  "DEFAULT_INTERESTING_STRING_TYPES = [NavigableString, CData]"

text \<open>\<open>tag.descendants\<close>: every node below the tag, in document order.\<close>

fun descendants :: "node \<Rightarrow> node list" where
  "descendants (Tag n as ts cs) = concat (map (\<lambda>c. c # descendants c) cs)"
| "descendants (Str k s) = []"

text \<open>
  How \<open>find\<close> matches one attribute against a function or a compiled pattern \<open>f\<close>: a
  missing attribute is offered as \<open>None\<close>; of a multi-valued attribute each value is
  offered, then the values joined by a space.
\<close>

fun attr_matches :: "(ustring option \<Rightarrow> bool) \<Rightarrow> attr_value option \<Rightarrow> bool" where
  "attr_matches f None = f None"
| "attr_matches f (Some (Single s)) = f (Some s)"
| "attr_matches f (Some (Multi xs)) =
     (list_ex (\<lambda>x. f (Some x)) xs \<or> f (Some (join [0x20] xs)))"

definition tag_matches ::
  "ustring option \<Rightarrow> ustring \<Rightarrow> (ustring option \<Rightarrow> bool) \<Rightarrow> node \<Rightarrow> bool" where
  "tag_matches nm attr f n =
     (case n of
        Tag t as ts cs \<Rightarrow>
          (case nm of None \<Rightarrow> True | Some x \<Rightarrow> t = x) \<and> attr_matches f (map_of as attr)
      | _ \<Rightarrow> False)"

text \<open>
  \<open>soup.find(name, {attr: f})\<close>: the first descendant tag, in document order, with that
  name (any name for \<open>None\<close>) whose attribute matches; \<open>None\<close> when there is none.
\<close>

definition soup_find ::
  "ustring option \<Rightarrow> ustring \<Rightarrow> (ustring option \<Rightarrow> bool) \<Rightarrow> node \<Rightarrow> node option" where
  "soup_find nm attr f root = List.find (tag_matches nm attr f) (descendants root)"

text \<open>A compiled pattern, used as the value to match: \<open>pattern.search(value)\<close>.\<close>

definition re_matcher :: "unicode_db \<Rightarrow> bool \<Rightarrow> pattern list \<Rightarrow> ustring option \<Rightarrow> bool" where
  "re_matcher U ic ps x = (case x of None \<Rightarrow> False | Some s \<Rightarrow> re_search U ic ps s \<noteq> None)"

text \<open>
  \<open>lambda x: x and word in str(x).lower() if x else False\<close>, the function given to
  \<open>find(class_=...)\<close> for the words \<open>alert\<close> and \<open>result\<close>.
\<close>

definition class_lambda :: "unicode_db \<Rightarrow> ustring \<Rightarrow> ustring option \<Rightarrow> bool" where
  "class_lambda U word x =
     (case x of None \<Rightarrow> False | Some s \<Rightarrow> s \<noteq> [] \<and> py_in word (lower U s))"

text \<open>
  \<open>_all_strings(strip, types)\<close> goes through a list of nodes and yields the strings
  whose class is one of \<open>types\<close> (the class itself, not a subclass); with \<open>strip\<close> each
  string is stripped and dropped when nothing is left.
\<close>

fun string_of :: "unicode_db \<Rightarrow> bool \<Rightarrow> string_type list \<Rightarrow> node \<Rightarrow> ustring list" where
  "string_of U strp types (Str k s) =
     (if k \<in> set types
      then (if strp then (if strip U s = [] then [] else [strip U s]) else [s])
      else [])"
| "string_of U strp types (Tag n as ts cs) = []"

definition all_strings :: "unicode_db \<Rightarrow> bool \<Rightarrow> string_type list \<Rightarrow> node list \<Rightarrow> ustring list" where
  "all_strings U strp types ns = concat (map (string_of U strp types) ns)"

text \<open>
  \<open>tag.get_text(separator, strip)\<close>: the strings among the descendants of the tag whose
  class is one of the tag's \<open>interesting_string_types\<close>, joined by the separator. So a
  comment is never text; the string of a \<open>script\<close> tag is no text of the page, but it
  is the text of the \<open>script\<close> tag itself. (On a string, \<open>get_text\<close> gives the string
  when it is a \<open>NavigableString\<close> or \<open>CData\<close>; the client calls \<open>get_text\<close> on tags
  only.)
\<close>

fun get_text :: "unicode_db \<Rightarrow> ustring \<Rightarrow> bool \<Rightarrow> node \<Rightarrow> ustring" where
  "get_text U separator strp (Tag n as ts cs) =
     join separator (all_strings U strp ts (descendants (Tag n as ts cs)))"
| "get_text U separator strp (Str k s) =
     join separator (all_strings U strp DEFAULT_INTERESTING_STRING_TYPES [Str k s])"


section \<open>The result parser of \<open>_do_query\<close>\<close>

record QueryResult =
  success :: bool
  is_captcha_error :: bool
  egn :: ustring
  last_name :: ustring
  result :: ustring
  raw_html :: ustring

text \<open>
  The three selectors of \<open>_do_query\<close>, tried in order: a tag whose class holds \<open>alert\<close>,
  a \<open>div\<close> whose class matches \<open>info-bubble\<close> (\<open>re.I\<close>), a tag whose class holds
  \<open>result\<close>.
\<close>

definition find_result_div :: "unicode_db \<Rightarrow> node \<Rightarrow> node option" where
  "find_result_div U soup =
     (case soup_find None (ascii ''class'') (class_lambda U (ascii ''alert'')) soup of
        Some d \<Rightarrow> Some d
      | None \<Rightarrow>
         (case soup_find (Some (ascii ''div'')) (ascii ''class'')
                 (re_matcher U True [lit (ascii ''info-bubble'')]) soup of
            Some d \<Rightarrow> Some d
          | None \<Rightarrow>
              soup_find None (ascii ''class'') (class_lambda U (ascii ''result'')) soup))"

text \<open>
  The classification of \<open>_do_query\<close> (from \<open>result_div = None\<close> to the last \<open>else\<close>):
  the triple \<open>(is_error, is_captcha_error, result_text)\<close>.
\<close>

definition classify :: "unicode_db \<Rightarrow> node \<Rightarrow> bool \<times> bool \<times> ustring" where
  "classify U soup =
     (case find_result_div U soup of
        Some result_div \<Rightarrow>
          (let result_text = get_text U [0x20] True result_div in
           if py_in Greshka result_text \<or> py_in Nevalidna result_text
           then (True, py_in kapcha (lower U result_text), result_text)
           else (False, False, result_text))
      | None \<Rightarrow>
          (let page_text = get_text U [] False soup in
           case re_search U False success_pattern page_text of
             Some m \<Rightarrow> (False, False, m)
           | None \<Rightarrow>
              (case re_search U True error_pattern page_text of
                 Some m \<Rightarrow> (True, True, m)
               | None \<Rightarrow> (False, False, could_not_parse))))"

text \<open>The dictionary that \<open>_do_query\<close> returns for a response body and its tree.\<close>

definition parse_response ::
  "unicode_db \<Rightarrow> ustring \<Rightarrow> ustring \<Rightarrow> ustring \<Rightarrow> node \<Rightarrow> QueryResult" where
  "parse_response U egn0 last_name0 html soup =
     (case classify U soup of
        (is_error, is_captcha, result_text) \<Rightarrow>
          \<lparr>success = \<not> is_error, is_captcha_error = is_captcha, egn = egn0,
           last_name = last_name0, result = result_text, raw_html = html\<rparr>)"


section \<open>Exceptions\<close>

text \<open>
  A call either returns a value or raises: its result is a value of \<open>exn + 'a\<close>. The
  exceptions are those the client raises itself, those of the standard library on the
  client's inputs, and those of the third-party libraries (whatever the environment
  below lets them raise).
\<close>

datatype exn =
    ConnectionError
  | Timeout
  | HTTPError nat
  | FeatureNotFound
  | IndexError
  | ValueError
  | AttributeError
  | BinasciiError
  | UnicodeEncodeError
  | UnidentifiedImageError
  | OSError
  | EOFError
  | ImportError
  | RuntimeError string
  | UnboundLocalError string


section \<open>Base64\<close>

text \<open>
  Bytes are natural numbers below 256. \<open>b64_value\<close> is the table of the standard
  alphabet (\<open>A-Z\<close>, \<open>a-z\<close>, \<open>0-9\<close>, \<open>+\<close>, \<open>/\<close>); \<open>b64_char\<close> is its inverse.
\<close>

definition b64_value :: "nat \<Rightarrow> nat option" where
  "b64_value c =
     (if 0x41 \<le> c \<and> c \<le> 0x5A then Some (c - 0x41)
      else if 0x61 \<le> c \<and> c \<le> 0x7A then Some (c - 0x61 + 26)
      else if 0x30 \<le> c \<and> c \<le> 0x39 then Some (c - 0x30 + 52)
      else if c = 0x2B then Some 62
      else if c = 0x2F then Some 63
      else None)"

definition b64_char :: "nat \<Rightarrow> nat" where
  "b64_char v =
     (if v < 26 then 0x41 + v
      else if v < 52 then 0x61 + (v - 26)
      else if v < 62 then 0x30 + (v - 52)
      else if v = 62 then 0x2B
      else 0x2F)"

text \<open>
  The decoding loop of \<open>binascii.a2b_base64\<close> (not strict), which \<open>base64.b64decode\<close>
  calls: a character outside the alphabet is skipped; a pad character ends the input
  once the current group of four has at least two characters and the pads complete it;
  every second, third and fourth character of a group gives one byte. Input that ends
  inside a group is an error. The state is the position in the group, the bits left
  over from the last character, the pads seen, and the bytes written.
\<close>

fun a2b_base64 :: "nat list \<Rightarrow> nat \<Rightarrow> nat \<Rightarrow> nat \<Rightarrow> nat list \<Rightarrow> exn + nat list" where
  "a2b_base64 [] quad_pos leftchar pads out =
     (if quad_pos \<noteq> 0 then Inl BinasciiError else Inr out)"
| "a2b_base64 (c # cs) quad_pos leftchar pads out =
     (if c = 0x3D then
        (if quad_pos \<ge> 2 \<and> quad_pos + (pads + 1) \<ge> 4 then Inr out
         else a2b_base64 cs quad_pos leftchar (if quad_pos \<ge> 2 then pads + 1 else pads) out)
      else
        (case b64_value c of
           None \<Rightarrow> a2b_base64 cs quad_pos leftchar pads out
         | Some v \<Rightarrow>
            (if quad_pos = 0 then a2b_base64 cs 1 v 0 out
             else if quad_pos = 1 then
               a2b_base64 cs 2 (v AND 0x0F) 0
                 (out @ [take_bit 8 (push_bit 2 leftchar OR drop_bit 4 v)])
             else if quad_pos = 2 then
               a2b_base64 cs 3 (v AND 0x03) 0
                 (out @ [take_bit 8 (push_bit 4 leftchar OR drop_bit 2 v)])
             else
               a2b_base64 cs 0 0 0
                 (out @ [take_bit 8 (push_bit 6 leftchar OR v)]))))"

text \<open>
  \<open>base64.b64decode(s)\<close> for a \<open>str\<close>: the string is encoded to ASCII first (a
  character above 127 raises \<open>ValueError\<close>), then decoded.
\<close>

definition b64decode :: "ustring \<Rightarrow> exn + nat list" where
  "b64decode s =
     (if list_ex (\<lambda>c. c > 127) s then Inl ValueError else a2b_base64 s 0 0 0 [])"

text \<open>
  The encoding of RFC 4648 (\<open>base64.b64encode\<close>): what "the bytes encoded in the URI"
  are. It is used to state the round trip only; the client never calls it.
\<close>

fun b64encode :: "nat list \<Rightarrow> ustring" where
  "b64encode [] = []"
| "b64encode [a] =
     [b64_char (drop_bit 2 a), b64_char (push_bit 4 (a AND 0x03)), 0x3D, 0x3D]"
| "b64encode [a, b] =
     [b64_char (drop_bit 2 a), b64_char (push_bit 4 (a AND 0x03) OR drop_bit 4 b),
      b64_char (push_bit 2 (b AND 0x0F)), 0x3D]"
| "b64encode (a # b # c # r) =
     [b64_char (drop_bit 2 a), b64_char (push_bit 4 (a AND 0x03) OR drop_bit 4 b),
      b64_char (push_bit 2 (b AND 0x0F) OR drop_bit 6 c), b64_char (c AND 0x3F)]
     @ b64encode r"

text \<open>\<open>s.split(',', 1)[1]\<close>: the text after the first comma; \<open>IndexError\<close> without one.\<close>

fun after_comma :: "ustring \<Rightarrow> exn + ustring" where
  "after_comma [] = Inl IndexError"
| "after_comma (c # s) = (if c = 0x2C then Inr s else after_comma s)"


section \<open>The environment of the client\<close>

text \<open>
  The client talks to a server, to an OCR engine and to an operator. A run is modelled
  with an explicit history of its effects: every call of \<open>session.get\<close> (with the
  request it was called for), every clearing of the session's cookies, every prompt for
  manual input. What the server answers to a request may depend on the whole history
  (cookies, earlier requests).
\<close>

datatype request =
    FormPage
  | Resource ustring
  | Query ustring ustring ustring

datatype event = CookiesCleared | Get request | Prompt

record response =
  status_code :: nat
  resp_text :: ustring
  resp_content :: "nat list"

text \<open>An image is modelled by the bytes it was opened from.\<close>

datatype image = Image "nat list"

text \<open>
  What is not in the repository is a parameter of the model, and every library call
  may raise:
  \<^item> \<open>ucd\<close>: the character tables;
  \<^item> \<open>stdout_encodes\<close>: the texts that the encoding of standard output accepts
    (\<open>print\<close> raises \<open>UnicodeEncodeError\<close> on any other). Standard output is taken to
    accept ASCII text, so the fixed messages and the print of the OCR result (letters
    and digits only) cannot fail; the print of the caller's CAPTCHA can;
  \<^item> \<open>server\<close>: what \<open>session.get\<close> returns or raises, given the history;
  \<^item> \<open>lxml\<close>: the parser, giving the children of the document;
  \<^item> \<open>pil_open\<close>: the exception of \<open>Image.open\<close> on the bytes, if any;
  \<^item> \<open>DDDDOCR_AVAILABLE\<close>, \<open>EASYOCR_AVAILABLE\<close>: the two module constants;
  \<^item> \<open>DdddOcr\<close>, \<open>Reader\<close>: the exception of the engine's constructor, if any;
  \<^item> \<open>preprocess_captcha\<close>, \<open>classification\<close>, \<open>readtext\<close>: the image processing and
    the two engines;
  \<^item> \<open>image_save\<close>: the exception of \<open>image.save\<close>, if any;
  \<^item> \<open>operator_input\<close>: what \<open>input\<close> returns or raises.
\<close>

record env =
  ucd :: unicode_db
  stdout_encodes :: "ustring \<Rightarrow> bool"
  server :: "event list \<Rightarrow> request \<Rightarrow> exn + response"
  lxml :: "ustring \<Rightarrow> exn + node list"
  pil_open :: "nat list \<Rightarrow> exn option"
  DDDDOCR_AVAILABLE :: bool
  EASYOCR_AVAILABLE :: bool
  DdddOcr :: "exn option"
  Reader :: "exn option"
  preprocess_captcha :: "image \<Rightarrow> exn + image"
  classification :: "image \<Rightarrow> exn + ustring"
  readtext :: "image \<Rightarrow> exn + ustring list"
  image_save :: "image \<Rightarrow> exn option"
  operator_input :: "event list \<Rightarrow> exn + ustring"

text \<open>\<open>session.get(url, timeout=30)\<close> and \<open>response.raise_for_status()\<close>.\<close>

definition session_get ::
  "env \<Rightarrow> event list \<Rightarrow> request \<Rightarrow> (exn + response) \<times> event list" where
  "session_get E log rq = (server E log rq, log @ [Get rq])"

definition raise_for_status :: "response \<Rightarrow> exn + unit" where
  "raise_for_status r =
     (if 400 \<le> status_code r \<and> status_code r < 600 then Inl (HTTPError (status_code r))
      else Inr ())"

text \<open>
  \<open>BeautifulSoup(markup, 'lxml')\<close>: the document is a tag of its own, named
  \<open>[document]\<close>, without attributes.
\<close>

definition BeautifulSoup :: "env \<Rightarrow> ustring \<Rightarrow> exn + node" where
  "BeautifulSoup E markup =
     (case lxml E markup of
        Inl e \<Rightarrow> Inl e
      | Inr cs \<Rightarrow> Inr (Tag (ascii ''[document]'') [] DEFAULT_INTERESTING_STRING_TYPES cs))"

text \<open>\<open>Image.open(BytesIO(data))\<close>.\<close>

definition Image_open :: "env \<Rightarrow> nat list \<Rightarrow> exn + image" where
  "Image_open E data0 =
     (case pil_open E data0 of Some e \<Rightarrow> Inl e | None \<Rightarrow> Inr (Image data0))"

text \<open>
  \<open>urlencode(params, quote_via=quote)\<close> encodes every value as UTF-8 before it quotes
  it, and raises \<open>UnicodeEncodeError\<close> on a lone surrogate. The keys and the two fixed
  values are ASCII; the values that vary are given. Only the failure is modelled: the
  request of the model carries the values as they are.
\<close>

definition urlencode :: "ustring list \<Rightarrow> exn + ustring list" where
  "urlencode vs = (if list_ex (list_ex surrogate) vs then Inl UnicodeEncodeError else Inr vs)"


section \<open>The client\<close>

record MVRClient =
  use_ocr :: bool
  max_retries :: int
  ocr :: bool
  easyocr_reader :: bool

text \<open>
  \<open>__init__\<close>: \<open>ocr\<close> and \<open>easyocr_reader\<close> say whether the field holds an engine (the
  code only tests the fields and calls the engine). Without any OCR library the
  constructor prints a warning and clears \<open>use_ocr\<close>.
\<close>

definition init :: "env \<Rightarrow> bool \<Rightarrow> int \<Rightarrow> exn + MVRClient" where
  "init E use_ocr0 max_retries0 =
     (if use_ocr0 then
        (if DDDDOCR_AVAILABLE E then
           (case DdddOcr E of
              Some e \<Rightarrow> Inl e
            | None \<Rightarrow>
                Inr \<lparr>use_ocr = True, max_retries = max_retries0, ocr = True,
                     easyocr_reader = False\<rparr>)
         else if EASYOCR_AVAILABLE E then
           (case Reader E of
              Some e \<Rightarrow> Inl e
            | None \<Rightarrow>
                Inr \<lparr>use_ocr = True, max_retries = max_retries0, ocr = False,
                     easyocr_reader = True\<rparr>)
         else
           Inr \<lparr>use_ocr = False, max_retries = max_retries0, ocr = False,
                easyocr_reader = False\<rparr>)
      else
        Inr \<lparr>use_ocr = False, max_retries = max_retries0, ocr = False,
             easyocr_reader = False\<rparr>)"

definition get_form_page :: "env \<Rightarrow> event list \<Rightarrow> (exn + node) \<times> event list" where
  "get_form_page E log =
     (case session_get E log FormPage of
        (Inl e, log') \<Rightarrow> (Inl e, log')
      | (Inr r, log') \<Rightarrow>
          (case raise_for_status r of
             Inl e \<Rightarrow> (Inl e, log')
           | Inr _ \<Rightarrow> (BeautifulSoup E (resp_text r), log')))"

definition BASE_URL :: ustring where
  "BASE_URL = ascii ''https://www.mvr.bg''"

text \<open>The three searches of \<open>extract_captcha_image\<close> for the image tag, in order.\<close>

definition find_captcha_img :: "unicode_db \<Rightarrow> node \<Rightarrow> node option" where
  "find_captcha_img U soup =
     (case soup_find (Some (ascii ''img'')) (ascii ''class'')
             (re_matcher U True [lit (ascii ''captcha'')]) soup of
        Some t \<Rightarrow> Some t
      | None \<Rightarrow>
         (case soup_find (Some (ascii ''img'')) (ascii ''alt'')
                 (re_matcher U True [lit (ascii ''captcha''), lit zashtiten_kod]) soup of
            Some t \<Rightarrow> Some t
          | None \<Rightarrow>
              soup_find (Some (ascii ''img'')) (ascii ''id'')
                (re_matcher U True [lit (ascii ''captcha'')]) soup))"

text \<open>The branch of \<open>extract_captcha_image\<close> for an inline image: the bytes it decodes.\<close>

definition decode_data_uri :: "ustring \<Rightarrow> exn + nat list" where
  "decode_data_uri src =
     (case after_comma src of
        Inl e \<Rightarrow> Inl e
      | Inr base64_data \<Rightarrow> b64decode base64_data)"

definition extract_captcha_image ::
  "env \<Rightarrow> event list \<Rightarrow> node \<Rightarrow> (exn + image option) \<times> event list" where
  "extract_captcha_image E log soup =
     (case find_captcha_img (ucd E) soup of
        None \<Rightarrow> (Inr None, log)
      | Some captcha_img \<Rightarrow>
         (case map_of (attrs captcha_img) (ascii ''src'') of
            None \<Rightarrow> (Inr None, log)
          | Some (Multi xs) \<Rightarrow> (if xs = [] then Inr None else Inl AttributeError, log)
          | Some (Single src) \<Rightarrow>
             (if src = [] then (Inr None, log)
              else if startswith src (ascii ''data:image'') then
                (case decode_data_uri src of
                   Inl e \<Rightarrow> (Inl e, log)
                 | Inr image_data \<Rightarrow> (map_sum id Some (Image_open E image_data), log))
              else
                (let url = (if startswith src (ascii ''/'') then BASE_URL @ src
                            else if startswith src (ascii ''http'') then src
                            else BASE_URL @ ascii ''/'' @ src)
                 in case session_get E log (Resource url) of
                      (Inl e, log') \<Rightarrow> (Inl e, log')
                    | (Inr r, log') \<Rightarrow>
                        (case raise_for_status r of
                           Inl e \<Rightarrow> (Inl e, log')
                         | Inr _ \<Rightarrow>
                             (map_sum id Some (Image_open E (resp_content r)), log'))))))"

text \<open>\<open>re.sub(r'[^A-Za-z0-9]', '', s)\<close>.\<close>

definition alnum :: "nat \<Rightarrow> bool" where
  "alnum c = ((0x41 \<le> c \<and> c \<le> 0x5A) \<or> (0x61 \<le> c \<and> c \<le> 0x7A) \<or> (0x30 \<le> c \<and> c \<le> 0x39))"

definition no_ocr_message :: string where
  "no_ocr_message = ''No OCR library available. Install ddddocr or easyocr.''"

definition solve_captcha_ocr :: "env \<Rightarrow> MVRClient \<Rightarrow> image \<Rightarrow> exn + ustring" where
  "solve_captcha_ocr E self img =
     (if ocr self then
        (case preprocess_captcha E img of
           Inl e \<Rightarrow> Inl e
         | Inr processed \<Rightarrow>
             (case classification E processed of
                Inl e \<Rightarrow> Inl e
              | Inr res \<Rightarrow> Inr (filter alnum res)))
      else if easyocr_reader self then
        (case readtext E img of
           Inl e \<Rightarrow> Inl e
         | Inr results \<Rightarrow>
             (if results \<noteq> [] then Inr (filter alnum (strip (ucd E) (concat results)))
              else Inl (RuntimeError no_ocr_message)))
      else Inl (RuntimeError no_ocr_message))"

text \<open>
  \<open>solve_captcha_manual\<close>: the image is saved and shown (the viewer is best effort:
  its failure is caught), then the operator's line is read and stripped.
\<close>

definition solve_captcha_manual ::
  "env \<Rightarrow> event list \<Rightarrow> image \<Rightarrow> (exn + ustring) \<times> event list" where
  "solve_captcha_manual E log img =
     (case image_save E img of
        Some e \<Rightarrow> (Inl e, log)
      | None \<Rightarrow>
          (case operator_input E log of
             Inl e \<Rightarrow> (Inl e, log @ [Prompt])
           | Inr line \<Rightarrow> (Inr (strip (ucd E) line), log @ [Prompt])))"

text \<open>
  \<open>_do_query\<close>: one submission. The URL is built first; when \<open>urlencode\<close> raises,
  \<open>session.get\<close> is not called.
\<close>

definition do_query ::
  "env \<Rightarrow> event list \<Rightarrow> ustring \<Rightarrow> ustring \<Rightarrow> ustring \<Rightarrow> (exn + QueryResult) \<times> event list" where
  "do_query E log egn0 last_name0 captcha =
     (case urlencode [egn0, last_name0, captcha] of
        Inl e \<Rightarrow> (Inl e, log)
      | Inr _ \<Rightarrow>
         (case session_get E log (Query egn0 last_name0 captcha) of
            (Inl e, log') \<Rightarrow> (Inl e, log')
          | (Inr r, log') \<Rightarrow>
              (case raise_for_status r of
                 Inl e \<Rightarrow> (Inl e, log')
               | Inr _ \<Rightarrow>
                   (case BeautifulSoup E (resp_text r) of
                      Inl e \<Rightarrow> (Inl e, log')
                    | Inr soup \<Rightarrow>
                        (Inr (parse_response (ucd E) egn0 last_name0 (resp_text r) soup),
                         log')))))"

text \<open>
  One pass through the body of the retry loop of \<open>query_documents\<close> ends in one of
  three ways: the function returns a result, the loop continues with the result kept in
  the variable \<open>result\<close>, or an exception leaves the function.
\<close>

datatype outcome = Return QueryResult | Continue QueryResult | Raise exn

definition submit_and_evaluate ::
  "env \<Rightarrow> event list \<Rightarrow> ustring \<Rightarrow> ustring \<Rightarrow> ustring \<Rightarrow> outcome \<times> event list" where
  "submit_and_evaluate E log egn0 last_name0 captcha =
     (case do_query E log egn0 last_name0 captcha of
        (Inl e, log') \<Rightarrow> (Raise e, log')
      | (Inr r, log') \<Rightarrow>
          (if success r then (Return r, log')
           else if is_captcha_error r then (Continue r, log')
           else (Return r, log')))"

definition attempt_body ::
  "env \<Rightarrow> MVRClient \<Rightarrow> event list \<Rightarrow> ustring \<Rightarrow> ustring \<Rightarrow> outcome \<times> event list" where
  "attempt_body E self log egn0 last_name0 =
     (case get_form_page E (log @ [CookiesCleared]) of
        (Inl e, log1) \<Rightarrow> (Raise e, log1)
      | (Inr soup, log1) \<Rightarrow>
         (case extract_captcha_image E log1 soup of
            (Inl e, log2) \<Rightarrow> (Raise e, log2)
          | (Inr None, log2) \<Rightarrow> submit_and_evaluate E log2 egn0 last_name0 []
          | (Inr (Some captcha_image), log2) \<Rightarrow>
             (if use_ocr self then
                (case solve_captcha_ocr E self captcha_image of
                   Inl e \<Rightarrow> (Raise e, log2)
                 | Inr captcha \<Rightarrow> submit_and_evaluate E log2 egn0 last_name0 captcha)
              else
                (case solve_captcha_manual E log2 captcha_image of
                   (Inl e, log3) \<Rightarrow> (Raise e, log3)
                 | (Inr captcha, log3) \<Rightarrow>
                     (case do_query E log3 egn0 last_name0 captcha of
                        (Inl e, log4) \<Rightarrow> (Raise e, log4)
                      | (Inr r, log4) \<Rightarrow> (Return r, log4))))))"

text \<open>
  The loop \<open>for attempt in range(1, self.max_retries + 1)\<close> and the \<open>return result\<close>
  after it. \<open>result\<close> is the local variable of that name: unbound (\<open>None\<close>) until an
  attempt assigns it.
\<close>

fun attempts ::
  "env \<Rightarrow> MVRClient \<Rightarrow> ustring \<Rightarrow> ustring \<Rightarrow> int list \<Rightarrow> QueryResult option \<Rightarrow> event list
     \<Rightarrow> (exn + QueryResult) \<times> event list" where
  "attempts E self egn0 last_name0 [] res log =
     (case res of
        None \<Rightarrow> (Inl (UnboundLocalError ''result''), log)
      | Some r \<Rightarrow> (Inr r, log))"
| "attempts E self egn0 last_name0 (attempt # rest) res log =
     (case attempt_body E self log egn0 last_name0 of
        (Return r, log') \<Rightarrow> (Inr r, log')
      | (Raise e, log') \<Rightarrow> (Inl e, log')
      | (Continue r, log') \<Rightarrow> attempts E self egn0 last_name0 rest (Some r) log')"

text \<open>
  \<open>query_documents(egn, last_name, captcha)\<close>; \<open>captcha\<close> is \<open>None\<close> or a string, and
  \<open>if captcha\<close> holds for a string that is not empty. The pre-solved CAPTCHA is
  printed before it is submitted.
\<close>

definition query_documents ::
  "env \<Rightarrow> MVRClient \<Rightarrow> event list \<Rightarrow> ustring \<Rightarrow> ustring \<Rightarrow> ustring option
     \<Rightarrow> (exn + QueryResult) \<times> event list" where
  "query_documents E self log egn0 last_name0 captcha =
     (case captcha of
        Some c \<Rightarrow>
          (if c \<noteq> [] then
             (if stdout_encodes E c then do_query E log egn0 last_name0 c
              else (Inl UnicodeEncodeError, log))
           else attempts E self egn0 last_name0 [1..max_retries self] None log)
      | None \<Rightarrow> attempts E self egn0 last_name0 [1..max_retries self] None log)"

text \<open>What the claims count in a history.\<close>

definition form_fetches :: "event list \<Rightarrow> nat" where
  "form_fetches log = length (filter (\<lambda>e. e = Get FormPage) log)"

definition submissions :: "event list \<Rightarrow> nat" where
  "submissions log = length (filter (\<lambda>e. case e of Get (Query a b c) \<Rightarrow> True | _ \<Rightarrow> False) log)"

definition cookie_resets :: "event list \<Rightarrow> nat" where
  "cookie_resets log = length (filter (\<lambda>e. e = CookiesCleared) log)"




section \<open>Sample inputs\<close>

text \<open>
  Character tables for texts of the ASCII and basic Cyrillic blocks (U+0400 to U+044F);
  on those blocks they are the tables of CPython. The sample documents below use no
  other character.
\<close>

definition basic_lower_char :: "nat \<Rightarrow> nat" where
  "basic_lower_char c =
     (if 0x41 \<le> c \<and> c \<le> 0x5A then c + 0x20
      else if 0x410 \<le> c \<and> c \<le> 0x42F then c + 0x20
      else if 0x400 \<le> c \<and> c \<le> 0x40F then c + 0x50
      else c)"

definition basic_ucd :: unicode_db where
  "basic_ucd =
     \<lparr>isspace = (\<lambda>c. (9 \<le> c \<and> c \<le> 13) \<or> (28 \<le> c \<and> c \<le> 32)),
      isdecimal = (\<lambda>c. 0x30 \<le> c \<and> c \<le> 0x39),
      lower = map basic_lower_char,
      ci_eq = (\<lambda>c x. basic_lower_char x = basic_lower_char c)\<rparr>"

definition page :: "node list \<Rightarrow> node" where
  \<comment> \<open>the tree of \<open><html><body>...</body></html>\<close>\<close>
  "page body0 =
     Tag (ascii ''[document]'') [] DEFAULT_INTERESTING_STRING_TYPES
       [Tag (ascii ''html'') [] DEFAULT_INTERESTING_STRING_TYPES
          [Tag (ascii ''body'') [] DEFAULT_INTERESTING_STRING_TYPES body0]]"

definition alert_div :: "ustring \<Rightarrow> node" where
  \<comment> \<open>\<open><div class="alert alert-danger">...</div>\<close>\<close>
  "alert_div s =
     Tag (ascii ''div'') [(ascii ''class'', Multi [ascii ''alert'', ascii ''alert-danger''])]
       DEFAULT_INTERESTING_STRING_TYPES [Str NavigableString s]"

definition paragraph_of :: "ustring \<Rightarrow> node" where
  "paragraph_of s =
     Tag (ascii ''p'') [] DEFAULT_INTERESTING_STRING_TYPES [Str NavigableString s]"

definition success_phrase :: ustring where
  \<comment> \<open>"Sled 01.01.2024 poluchen."\<close>
  "success_phrase = Sled @ ascii '' 01.01.2024 '' @ poluchen @ ascii ''.''"

definition doc_plain :: node where
  "doc_plain = page [paragraph_of (ascii ''Service temporarily unavailable'')]"

definition doc_success :: node where
  "doc_success = page [paragraph_of (ascii ''Status: '' @ success_phrase @ ascii '' Thanks'')]"

definition doc_alert_and_success :: node where
  "doc_alert_and_success = page [alert_div Greshka, paragraph_of success_phrase]"

definition phrase_with_captcha_error :: ustring where
  \<comment> \<open>"Sled 01.01.2024 Greshka kapcha poluchen."\<close>
  "phrase_with_captcha_error =
     Sled @ ascii '' 01.01.2024 '' @ Greshka @ ascii '' '' @ kapcha @ ascii '' ''
       @ poluchen @ ascii ''.''"

definition doc_success_with_captcha_error :: node where
  "doc_success_with_captcha_error = page [paragraph_of phrase_with_captcha_error]"

definition phrase_with_error :: ustring where
  \<comment> \<open>"Sled 01.01.2024 Greshka poluchen."\<close>
  "phrase_with_error =
     Sled @ ascii '' 01.01.2024 '' @ Greshka @ ascii '' '' @ poluchen @ ascii ''.''"

definition doc_success_with_error :: node where
  "doc_success_with_error = page [paragraph_of phrase_with_error]"

definition captcha_error_text :: ustring where
  \<comment> \<open>"Greshka: Nevalidna kapcha"\<close>
  "captcha_error_text = Greshka @ ascii '': '' @ Nevalidna @ ascii '' '' @ kapcha"

definition doc_captcha_error :: node where
  "doc_captcha_error = page [alert_div captcha_error_text]"

definition doc_permanent_error :: node where
  "doc_permanent_error = page [alert_div (Nevalidna @ ascii '' EGN'')]"

definition doc_form :: node where
  \<comment> \<open>a form page without a CAPTCHA image\<close>
  "doc_form = page [Tag (ascii ''form'') [] DEFAULT_INTERESTING_STRING_TYPES []]"

definition png_bytes :: "nat list" where
  "png_bytes = [0x89, 0x50, 0x4E, 0x47, 0x0D]"

definition data_uri :: ustring where
  "data_uri = ascii ''data:image/png;base64,'' @ b64encode png_bytes"

definition doc_form_captcha :: node where
  \<comment> \<open>a form page with an inline CAPTCHA image\<close>
  "doc_form_captcha =
     page [Tag (ascii ''img'')
             [(ascii ''class'', Multi [ascii ''captcha'']), (ascii ''src'', Single data_uri)]
             DEFAULT_INTERESTING_STRING_TYPES []]"

text \<open>
  A sample environment. The response body is a short name of the page, and the sample
  parser gives the tree of each page. The server answers the request for the form with
  the page \<open>form_name\<close> and every submission with the page \<open>answer\<close>. Standard output
  is UTF-8 (strict). The OCR engine, when there is one, reads \<open>a-b7\<close>; the operator
  types \<open>x9k2\<close>.
\<close>

definition sample_lxml :: "ustring \<Rightarrow> exn + node list" where
  "sample_lxml html =
     Inr (contents
       (if html = ascii ''form'' then doc_form
        else if html = ascii ''form-captcha'' then doc_form_captcha
        else if html = ascii ''captcha-error'' then doc_captcha_error
        else if html = ascii ''permanent-error'' then doc_permanent_error
        else if html = ascii ''success'' then doc_success
        else doc_plain))"

definition ok_response :: "string \<Rightarrow> exn + response" where
  "ok_response s = Inr \<lparr>status_code = 200, resp_text = ascii s, resp_content = []\<rparr>"

definition sample_env :: "string \<Rightarrow> string \<Rightarrow> bool \<Rightarrow> env" where
  "sample_env form_name answer has_ocr =
     \<lparr>ucd = basic_ucd,
      stdout_encodes = (\<lambda>s. \<not> list_ex surrogate s),
      server = (\<lambda>log rq. case rq of
                  FormPage \<Rightarrow> ok_response form_name
                | Resource u \<Rightarrow> Inl ConnectionError
                | Query a b c \<Rightarrow> ok_response answer),
      lxml = sample_lxml,
      pil_open = (\<lambda>bs. None),
      DDDDOCR_AVAILABLE = has_ocr,
      EASYOCR_AVAILABLE = False,
      DdddOcr = None,
      Reader = None,
      preprocess_captcha = (\<lambda>i. Inr i),
      classification = (\<lambda>i. Inr (ascii ''a-b7'')),
      readtext = (\<lambda>i. Inr []),
      image_save = (\<lambda>i. None),
      operator_input = (\<lambda>log. Inr (ascii '' x9k2 ''))\<rparr>"

text \<open>The client that \<open>__init__\<close> makes in a sample environment with an OCR engine.\<close>

definition ocr_client :: "int \<Rightarrow> MVRClient" where
  "ocr_client n = \<lparr>use_ocr = True, max_retries = n, ocr = True, easyocr_reader = False\<rparr>"

text \<open>The client of manual mode.\<close>

definition manual_client :: "int \<Rightarrow> MVRClient" where
  "manual_client n = \<lparr>use_ocr = False, max_retries = n, ocr = False, easyocr_reader = False\<rparr>"


section \<open>The search finds what the pattern denotes\<close>

text \<open>
  The backtracking matcher is sound and complete for the words a pattern accepts, so
  \<open>re_search\<close> succeeds exactly on the texts that contain a match.
\<close>

lemma accepts_PlusI:
  "u \<noteq> [] \<Longrightarrow> list_all (atom_ok U ic a) u \<Longrightarrow> accepts U ic r v \<Longrightarrow>
     accepts U ic (PlusGreedy a # r) (u @ v)"
  by auto

lemma accepts_StarI:
  "list_all (atom_ok U ic a) u \<Longrightarrow> accepts U ic r v \<Longrightarrow>
     accepts U ic (StarLazy a # r) (u @ v)"
  by auto

lemma match_here_sound:
  "match_here U ic p s = Some m \<Longrightarrow> accepts U ic p m \<and> (\<exists>rest. s = m @ rest)"
proof (induction U ic p s arbitrary: m rule: match_here.induct)
  case (1 U ic s)
  then show ?case by simp
next
  case (2 U ic a r)
  then show ?case by simp
next
  case (3 U ic a r c s)
  then show ?case by (auto split: if_splits)
next
  case (4 U ic a r)
  then show ?case by simp
next
  case (5 U ic a r c s)
  from "5.prems" have ok: "atom_ok U ic a c" by (simp split: if_splits)
  show ?case
  proof (cases "match_here U ic (PlusGreedy a # r) s")
    case None
    with "5.prems" ok obtain m' where m': "match_here U ic r s = Some m'" "m = c # m'"
      by auto
    from "5.IH"(2)[OF ok None m'(1)] obtain rest where "accepts U ic r m'" "s = m' @ rest"
      by blast
    with m' ok show ?thesis
      using accepts_PlusI[of "[c]" U ic a r m'] by simp
  next
    case (Some m')
    with "5.prems" ok have m: "m = c # m'" by simp
    from "5.IH"(1)[OF ok Some] obtain u v rest where
      "m' = u @ v" "u \<noteq> []" "list_all (atom_ok U ic a) u" "accepts U ic r v" "s = m' @ rest"
      by auto
    with m ok show ?thesis
      using accepts_PlusI[of "c # u" U ic a r v] by simp
  qed
next
  case (6 U ic a r)
  then show ?case using accepts_StarI[of U ic a "[]" r m] by simp
next
  case (7 U ic a r c s)
  show ?case
  proof (cases "match_here U ic r (c # s)")
    case (Some m')
    with "7.prems" have "m = m'" by simp
    with "7.IH"(1)[OF Some] show ?thesis
      using accepts_StarI[of U ic a "[]" r m'] by auto
  next
    case None
    with "7.prems" obtain m' where ok: "atom_ok U ic a c"
      and m': "match_here U ic (StarLazy a # r) s = Some m'" "m = c # m'"
      by (auto split: if_splits)
    from "7.IH"(2)[OF None ok m'(1)] obtain u v rest where
      "m' = u @ v" "list_all (atom_ok U ic a) u" "accepts U ic r v" "s = m' @ rest"
      by auto
    with m' ok show ?thesis
      using accepts_StarI[of U ic a "c # u" r v] by simp
  qed
qed

lemma match_here_complete:
  "accepts U ic p w \<Longrightarrow> s = w @ rest \<Longrightarrow> match_here U ic p s \<noteq> None"
proof (induction U ic p s arbitrary: w rest rule: match_here.induct)
  case (1 U ic s)
  then show ?case by simp
next
  case (2 U ic a r)
  then show ?case by (simp split: list.splits)
next
  case (3 U ic a r c s)
  then show ?case by (auto split: list.splits)
next
  case (4 U ic a r)
  then show ?case by simp
next
  case (5 U ic a r c s)
  from "5.prems" obtain u v where w: "w = u @ v" "u \<noteq> []" "list_all (atom_ok U ic a) u"
    "accepts U ic r v" by auto
  then obtain u' where u: "u = c # u'" using "5.prems"(2) by (cases u) auto
  with w have ok: "atom_ok U ic a c" by simp
  show ?case
  proof (cases "match_here U ic (PlusGreedy a # r) s")
    case (Some m')
    with ok show ?thesis by simp
  next
    case None
    have "u' = []"
    proof (rule ccontr)
      assume "u' \<noteq> []"
      with w u have "accepts U ic (PlusGreedy a # r) (u' @ v)" by auto
      moreover have "s = (u' @ v) @ rest" using "5.prems"(2) w u by simp
      ultimately show False using "5.IH"(1)[OF ok] None by blast
    qed
    with w u "5.prems"(2) have "s = v @ rest" by simp
    from "5.IH"(2)[OF ok None w(4) this] ok None show ?thesis by simp
  qed
next
  case (6 U ic a r)
  then show ?case by auto
next
  case (7 U ic a r c s)
  from "7.prems" obtain u v where w: "w = u @ v" "list_all (atom_ok U ic a) u"
    "accepts U ic r v" by auto
  show ?case
  proof (cases "match_here U ic r (c # s)")
    case (Some m')
    then show ?thesis by simp
  next
    case None
    have "u \<noteq> []"
    proof
      assume "u = []"
      with w "7.prems"(2) have "c # s = v @ rest" by simp
      from "7.IH"(1)[OF w(3) this] None show False by simp
    qed
    then obtain u' where u: "u = c # u'" using "7.prems"(2) w by (cases u) auto
    with w have ok: "atom_ok U ic a c" by simp
    have "accepts U ic (StarLazy a # r) (u' @ v)" using w u by auto
    moreover have "s = (u' @ v) @ rest" using "7.prems"(2) w u by simp
    ultimately have "match_here U ic (StarLazy a # r) s \<noteq> None"
      using "7.IH"(2)[OF None ok] by blast
    with None ok show ?thesis by auto
  qed
qed

lemma match_alts_sound:
  "match_alts U ic ps s = Some m \<Longrightarrow>
     \<exists>p rest. p \<in> set ps \<and> accepts U ic p m \<and> s = m @ rest"
  by (induction ps) (auto split: option.splits dest: match_here_sound)

lemma match_alts_complete:
  "p \<in> set ps \<Longrightarrow> accepts U ic p w \<Longrightarrow> match_alts U ic ps (w @ rest) \<noteq> None"
  by (induction ps) (auto split: option.splits dest: match_here_complete)

lemma re_search_sound:
  "re_search U ic ps s = Some m \<Longrightarrow>
     \<exists>pre post p. s = pre @ m @ post \<and> p \<in> set ps \<and> accepts U ic p m"
proof (induction s)
  case Nil
  then show ?case by (auto dest!: match_alts_sound)
next
  case (Cons c s)
  show ?case
  proof (cases "match_alts U ic ps (c # s)")
    case (Some m')
    with Cons.prems have "m = m'" by simp
    with match_alts_sound[OF Some] show ?thesis by (metis append_Nil)
  next
    case None
    with Cons.prems have "re_search U ic ps s = Some m" by simp
    from Cons.IH[OF this] obtain pre post p where
      "s = pre @ m @ post" "p \<in> set ps" "accepts U ic p m" by blast
    then have "c # s = (c # pre) @ m @ post" by simp
    then show ?thesis using \<open>p \<in> set ps\<close> \<open>accepts U ic p m\<close> by blast
  qed
qed

lemma re_search_complete:
  "p \<in> set ps \<Longrightarrow> accepts U ic p w \<Longrightarrow> re_search U ic ps (pre @ w @ post) \<noteq> None"
proof (induction pre)
  case Nil
  then show ?case
    using match_alts_complete[of p ps U ic w post]
    by (cases "w @ post") (auto split: option.splits)
next
  case (Cons c pre)
  then show ?case by (auto split: option.splits)
qed

lemma re_search_iff: "re_search U ic ps s \<noteq> None \<longleftrightarrow> contains_match U ic ps s"
  unfolding contains_match_def
  using re_search_sound re_search_complete by (metis not_Some_eq)


section \<open>Evaluation\<close>

text \<open>The definitions that evaluate the model on the sample inputs.\<close>

lemmas parser_defs =
  ascii_def startswith_def strip_def Greshka_def Nevalidna_def kapcha_def Sled_def
  poluchen_def zashtiten_kod_def could_not_parse_def lit_def success_pattern_def
  error_pattern_def tag_matches_def soup_find_def re_matcher_def class_lambda_def
  all_strings_def DEFAULT_INTERESTING_STRING_TYPES_def find_result_div_def classify_def
  parse_response_def Let_def

lemmas sample_defs =
  basic_lower_char_def basic_ucd_def page_def alert_div_def paragraph_of_def
  success_phrase_def doc_plain_def doc_success_def doc_alert_and_success_def
  phrase_with_captcha_error_def doc_success_with_captcha_error_def phrase_with_error_def
  doc_success_with_error_def captcha_error_text_def doc_captcha_error_def
  doc_permanent_error_def doc_form_def sample_lxml_def ok_response_def sample_env_def
  ocr_client_def manual_client_def

lemmas client_defs =
  surrogate_def urlencode_def session_get_def raise_for_status_def BeautifulSoup_def
  Image_open_def init_def get_form_page_def find_captcha_img_def extract_captcha_image_def
  solve_captcha_ocr_def solve_captcha_manual_def do_query_def submit_and_evaluate_def
  attempt_body_def query_documents_def alnum_def


section \<open>The result parser\<close>

lemma classify_invariant:
  "classify U soup = (is_error, is_captcha, t) \<Longrightarrow> is_captcha \<Longrightarrow> is_error"
  by (auto simp: classify_def Let_def split: option.splits if_splits)

lemma parse_response_invariant:
  "is_captcha_error (parse_response U e l h soup) \<Longrightarrow> \<not> success (parse_response U e l h soup)"
  by (auto simp: parse_response_def split: prod.splits dest: classify_invariant)

lemma do_query_cases:
  "do_query E log e l c = (Inr r, log') \<Longrightarrow>
     \<exists>resp soup. server E log (Query e l c) = Inr resp \<and>
       BeautifulSoup E (resp_text resp) = Inr soup \<and>
       r = parse_response (ucd E) e l (resp_text resp) soup"
  by (auto simp: do_query_def session_get_def split: sum.splits)

lemma do_query_log:
  "snd (do_query E log e l c)
     = (if list_ex surrogate (e @ l @ c) then log else log @ [Get (Query e l c)])"
  by (auto simp: do_query_def urlencode_def session_get_def split: sum.splits)

lemma do_query_unencodable:
  "list_ex surrogate (e @ l @ c) \<Longrightarrow> do_query E log e l c = (Inl UnicodeEncodeError, log)"
  by (auto simp: do_query_def urlencode_def)

text \<open>
  C5. Every result that \<open>_do_query\<close> returns, in any environment and on any path of the
  parser, satisfies the invariant: a CAPTCHA error is never a success.
\<close>

theorem captcha_error_is_failure:
  assumes "do_query E log e l c = (Inr r, log')" and "is_captcha_error r"
  shows "\<not> success r"
  using assms by (auto dest!: do_query_cases parse_response_invariant)

theorem captcha_error_is_failure_witness:
  "do_query (sample_env ''form'' ''captcha-error'' True) [] [1] [2] []
     = (Inr (parse_response basic_ucd [1] [2] (ascii ''captcha-error'') doc_captcha_error),
        [Get (Query [1] [2] [])])
   \<and> is_captcha_error (parse_response basic_ucd [1] [2] (ascii ''captcha-error'') doc_captcha_error)
   \<and> \<not> success (parse_response basic_ucd [1] [2] (ascii ''captcha-error'') doc_captcha_error)"
proof -
  have a: "do_query (sample_env ''form'' ''captcha-error'' True) [] [1] [2] []
     = (Inr (parse_response basic_ucd [1] [2] (ascii ''captcha-error'') doc_captcha_error),
        [Get (Query [1] [2] [])])"
    by (simp add: parser_defs sample_defs client_defs)
  have b: "is_captcha_error (parse_response basic_ucd [1] [2] (ascii ''captcha-error'') doc_captcha_error)"
    by (simp add: parser_defs sample_defs)
  from captcha_error_is_failure[OF a b] a b show ?thesis by blast
qed

text \<open>
  C1. A page without a result container whose text matches neither pattern: the
  parser returns the text "Could not parse result", and it returns it with
  \<open>success = True\<close>, since only the error branches set \<open>is_error\<close>.
\<close>

theorem unparseable_reported_as_success:
  "parse_response basic_ucd e l h doc_plain
     = \<lparr>success = True, is_captcha_error = False, egn = e, last_name = l,
        result = ascii ''Could not parse result'', raw_html = h\<rparr>"
  by (simp add: parser_defs sample_defs)


section \<open>The retry loop\<close>




section \<open>The ordered heuristics of the parser\<close>

lemma classify_container:
  "find_result_div U soup = Some d \<Longrightarrow>
   classify U soup =
     (let t = get_text U [0x20] True d in
      (py_in Greshka t \<or> py_in Nevalidna t,
       (py_in Greshka t \<or> py_in Nevalidna t) \<and> py_in kapcha (lower U t), t))"
  by (simp add: classify_def Let_def)

lemma classify_success:
  "find_result_div U soup = None \<Longrightarrow>
   re_search U False success_pattern (get_text U [] False soup) = Some m \<Longrightarrow>
   classify U soup = (False, False, m)"
  by (simp add: classify_def Let_def)

lemma classify_error:
  "find_result_div U soup = None \<Longrightarrow>
   re_search U False success_pattern (get_text U [] False soup) = None \<Longrightarrow>
   re_search U True error_pattern (get_text U [] False soup) = Some m \<Longrightarrow>
   classify U soup = (True, True, m)"
  by (simp add: classify_def Let_def)

lemma classify_sentinel:
  "find_result_div U soup = None \<Longrightarrow>
   re_search U False success_pattern (get_text U [] False soup) = None \<Longrightarrow>
   re_search U True error_pattern (get_text U [] False soup) = None \<Longrightarrow>
   classify U soup = (False, False, could_not_parse)"
  by (simp add: classify_def Let_def)

lemma sentinel_has_no_error_token:
  "\<not> py_in Greshka could_not_parse" "\<not> py_in Nevalidna could_not_parse"
  by (simp_all add: parser_defs)

lemma unparseable_in_general:
  assumes "find_result_div U soup = None"
    and "\<not> contains_match U False success_pattern (get_text U [] False soup)"
    and "\<not> contains_match U True error_pattern (get_text U [] False soup)"
  shows "parse_response U e l h soup
     = \<lparr>success = True, is_captcha_error = False, egn = e, last_name = l,
        result = could_not_parse, raw_html = h\<rparr>"
  using assms classify_sentinel[of U soup]
  by (simp add: parse_response_def flip: re_search_iff)

text \<open>
  C2, as stated, fails: the search for a result container comes first. A page with an
  alert container and, elsewhere, the success phrase is classified by the container.
\<close>

theorem success_pattern_in_container_counterexample:
  "re_search basic_ucd False success_pattern (get_text basic_ucd [] False doc_alert_and_success)
     = Some success_phrase
   \<and> parse_response basic_ucd [1] [2] [] doc_alert_and_success
     = \<lparr>success = False, is_captcha_error = False, egn = [1], last_name = [2],
        result = Greshka, raw_html = []\<rparr>"
  by (simp add: parser_defs sample_defs)

text \<open>
  C2 (amended). When no result container is found and the page text contains a match of
  the success pattern, the result is a success, it is not a CAPTCHA error, and its text is
  the phrase that \<open>re.search\<close> matched: a part of the page text that the pattern accepts.
\<close>

theorem success_pattern_without_container:
  assumes "find_result_div U soup = None"
    and "contains_match U False success_pattern (get_text U [] False soup)"
  shows "success (parse_response U e l h soup)
     \<and> \<not> is_captcha_error (parse_response U e l h soup)
     \<and> re_search U False success_pattern (get_text U [] False soup)
         = Some (result (parse_response U e l h soup))
     \<and> contains_match U False success_pattern (result (parse_response U e l h soup))
     \<and> (\<exists>pre post. get_text U [] False soup = pre @ result (parse_response U e l h soup) @ post)"
proof -
  from assms(2) obtain m where m: "re_search U False success_pattern (get_text U [] False soup) = Some m"
    using re_search_iff[of U False success_pattern] by blast
  from re_search_sound[OF m] obtain pre post p where
    p: "get_text U [] False soup = pre @ m @ post" "p \<in> set success_pattern" "accepts U False p m"
    by blast
  have "contains_match U False success_pattern m"
    unfolding contains_match_def using p(2,3) by (metis append_Nil append_Nil2)
  moreover have "parse_response U e l h soup
     = \<lparr>success = True, is_captcha_error = False, egn = e, last_name = l, result = m, raw_html = h\<rparr>"
    using classify_success[OF assms(1) m] by (simp add: parse_response_def)
  ultimately show ?thesis using m p(1) by auto
qed

theorem success_pattern_without_container_witness:
  "find_result_div basic_ucd doc_success = None
   \<and> contains_match basic_ucd False success_pattern (get_text basic_ucd [] False doc_success)
   \<and> success (parse_response basic_ucd [1] [2] [] doc_success)
   \<and> result (parse_response basic_ucd [1] [2] [] doc_success) = success_phrase"
proof -
  have a: "find_result_div basic_ucd doc_success = None" by (simp add: parser_defs sample_defs)
  have "re_search basic_ucd False success_pattern (get_text basic_ucd [] False doc_success) \<noteq> None"
    by (simp add: parser_defs sample_defs)
  then have b: "contains_match basic_ucd False success_pattern (get_text basic_ucd [] False doc_success)"
    by (simp only: re_search_iff)
  have c: "result (parse_response basic_ucd [1] [2] [] doc_success) = success_phrase"
    by (simp add: parser_defs sample_defs)
  from success_pattern_without_container[OF a b, of "[1]" "[2]" "[]"] a b c show ?thesis by simp
qed

text \<open>
  C3, as stated, fails on the path of the success pattern: the matched phrase is returned
  as a success whatever it contains, also an error token and the CAPTCHA token.
\<close>

theorem captcha_error_in_success_phrase_counterexample:
  "py_in Greshka (result (parse_response basic_ucd [1] [2] [] doc_success_with_captcha_error))
   \<and> py_in kapcha (lower basic_ucd
        (result (parse_response basic_ucd [1] [2] [] doc_success_with_captcha_error)))
   \<and> success (parse_response basic_ucd [1] [2] [] doc_success_with_captcha_error)
   \<and> \<not> is_captcha_error (parse_response basic_ucd [1] [2] [] doc_success_with_captcha_error)"
  by (simp add: parser_defs sample_defs)

text \<open>
  C3 (amended). When the result text is not a match of the success pattern (a container
  was found, or the success pattern did not match), a result text that contains an error
  token and, in lower case, the CAPTCHA token is a CAPTCHA error and not a success.
\<close>

theorem captcha_error_classified:
  assumes "find_result_div U soup \<noteq> None
           \<or> re_search U False success_pattern (get_text U [] False soup) = None"
    and "py_in Greshka (result (parse_response U e l h soup))
         \<or> py_in Nevalidna (result (parse_response U e l h soup))"
    and "py_in kapcha (lower U (result (parse_response U e l h soup)))"
  shows "is_captcha_error (parse_response U e l h soup)
       \<and> \<not> success (parse_response U e l h soup)"
proof (cases "find_result_div U soup")
  case (Some d)
  from classify_container[OF Some] assms(2,3) show ?thesis
    by (simp add: parse_response_def Let_def)
next
  case None
  with assms(1) have s: "re_search U False success_pattern (get_text U [] False soup) = None"
    by simp
  show ?thesis
  proof (cases "re_search U True error_pattern (get_text U [] False soup)")
    case (Some m)
    from classify_error[OF None s Some] show ?thesis by (simp add: parse_response_def)
  next
    case n: None
    from classify_sentinel[OF None s n] assms(2) sentinel_has_no_error_token
    show ?thesis by (simp add: parse_response_def)
  qed
qed

theorem captcha_error_classified_witness:
  "find_result_div basic_ucd doc_captcha_error \<noteq> None
   \<and> py_in Greshka (result (parse_response basic_ucd [1] [2] [] doc_captcha_error))
   \<and> py_in kapcha (lower basic_ucd (result (parse_response basic_ucd [1] [2] [] doc_captcha_error)))
   \<and> is_captcha_error (parse_response basic_ucd [1] [2] [] doc_captcha_error)
   \<and> \<not> success (parse_response basic_ucd [1] [2] [] doc_captcha_error)"
proof -
  have a: "find_result_div basic_ucd doc_captcha_error \<noteq> None" by (simp add: parser_defs sample_defs)
  have b: "py_in Greshka (result (parse_response basic_ucd [1] [2] [] doc_captcha_error))"
    by (simp add: parser_defs sample_defs)
  have c: "py_in kapcha (lower basic_ucd (result (parse_response basic_ucd [1] [2] [] doc_captcha_error)))"
    by (simp add: parser_defs sample_defs)
  from captcha_error_classified[of basic_ucd doc_captcha_error "[1]" "[2]" "[]"] a b c
  show ?thesis by blast
qed


section \<open>The pre-solved CAPTCHA\<close>

text \<open>
  C7, as stated, fails for a value that cannot be encoded: a lone surrogate in the
  CAPTCHA makes \<open>print\<close> raise on a UTF-8 standard output, and a lone surrogate in any
  of the three values makes \<open>urlencode\<close> raise; the run ends in \<open>UnicodeEncodeError\<close>
  with no submission at all.
\<close>

theorem presolved_captcha_unencodable_counterexample:
  "query_documents (sample_env ''form'' ''success'' True) (ocr_client 3) [] [1] [2]
       (Some [0xDCFF])
     = (Inl UnicodeEncodeError, [])
   \<and> submissions (snd (query_documents (sample_env ''form'' ''success'' True) (ocr_client 3)
        [] [1] [2] (Some [0xDCFF]))) = 0
   \<and> query_documents (sample_env ''form'' ''success'' True) (ocr_client 3) [] [0xDCFF] [2]
       (Some (ascii ''AB12''))
     = (Inl UnicodeEncodeError, [])
   \<and> submissions (snd (query_documents (sample_env ''form'' ''success'' True) (ocr_client 3)
        [] [0xDCFF] [2] (Some (ascii ''AB12'')))) = 0"
  by (simp add: parser_defs sample_defs client_defs submissions_def)

text \<open>
  C7 (amended). With a pre-solved CAPTCHA (a string that is not empty) no form page is
  fetched and no cookie is cleared. When standard output can print the CAPTCHA and the
  three values hold no lone surrogate, \<open>query_documents\<close> is one call of \<open>_do_query\<close>:
  the only request of the run is that one submission, whatever it returns. Otherwise the
  run ends in \<open>UnicodeEncodeError\<close> before any request.
\<close>

theorem presolved_captcha_single_submission:
  assumes "c \<noteq> []"
  shows "form_fetches (snd (query_documents E self log e l (Some c))) = form_fetches log
       \<and> cookie_resets (snd (query_documents E self log e l (Some c))) = cookie_resets log
       \<and> (stdout_encodes E c \<and> \<not> list_ex surrogate (e @ l @ c) \<longrightarrow>
            query_documents E self log e l (Some c) = do_query E log e l c
          \<and> snd (query_documents E self log e l (Some c)) = log @ [Get (Query e l c)]
          \<and> submissions (snd (query_documents E self log e l (Some c))) = submissions log + 1)
       \<and> (\<not> (stdout_encodes E c \<and> \<not> list_ex surrogate (e @ l @ c)) \<longrightarrow>
            query_documents E self log e l (Some c) = (Inl UnicodeEncodeError, log))"
  using assms
  by (simp add: query_documents_def do_query_log do_query_unencodable form_fetches_def
      cookie_resets_def submissions_def)

theorem presolved_captcha_single_submission_witness:
  "ascii ''AB12'' \<noteq> []
   \<and> stdout_encodes (sample_env ''form'' ''captcha-error'' True) (ascii ''AB12'')
   \<and> \<not> list_ex surrogate ([1] @ [2] @ ascii ''AB12'')
   \<and> query_documents (sample_env ''form'' ''captcha-error'' True) (ocr_client 3) [] [1] [2]
        (Some (ascii ''AB12''))
      = (Inr (parse_response basic_ucd [1] [2] (ascii ''captcha-error'') doc_captcha_error),
         [Get (Query [1] [2] (ascii ''AB12''))])
   \<and> is_captcha_error (parse_response basic_ucd [1] [2] (ascii ''captcha-error'') doc_captcha_error)
   \<and> submissions (snd (query_documents (sample_env ''form'' ''captcha-error'' True) (ocr_client 3)
        [] [1] [2] (Some (ascii ''AB12'')))) = submissions [] + 1"
proof -
  have a: "ascii ''AB12'' \<noteq> []" by (simp add: ascii_def)
  have s: "stdout_encodes (sample_env ''form'' ''captcha-error'' True) (ascii ''AB12'')"
    "\<not> list_ex surrogate ([1] @ [2] @ ascii ''AB12'')"
    by (simp_all add: sample_env_def ascii_def surrogate_def)
  have b: "do_query (sample_env ''form'' ''captcha-error'' True) [] [1] [2] (ascii ''AB12'')
      = (Inr (parse_response basic_ucd [1] [2] (ascii ''captcha-error'') doc_captcha_error),
         [Get (Query [1] [2] (ascii ''AB12''))])"
    by (simp add: parser_defs sample_defs client_defs)
  have c: "is_captcha_error (parse_response basic_ucd [1] [2] (ascii ''captcha-error'') doc_captcha_error)"
    by (simp add: parser_defs sample_defs)
  from presolved_captcha_single_submission[OF a, of "sample_env ''form'' ''captcha-error'' True"
      "ocr_client 3" "[]" "[1]" "[2]"] a s b c
  show ?thesis by (simp add: submissions_def)
qed


section \<open>The bounded retry loop\<close>

lemma form_fetches_append: "form_fetches (a @ b) = form_fetches a + form_fetches b"
  by (simp add: form_fetches_def)













lemma length_range: "length [1..n] = nat n"
  by simp










end
